theory Spec2Isabelle
  imports Main "HOL-Library.Sublist"
begin

section \<open>The supergraph handler of graphql-mesh\<close>

text \<open>
  A shallow embedding of \<^verbatim>\<open>packages/legacy/handlers/supergraph/src/index.ts\<close>:
  the class \<^verbatim>\<open>SupergraphHandler\<close> with its methods \<^verbatim>\<open>getSupergraphSdl\<close> and
  \<^verbatim>\<open>getMeshSource\<close>, and the function \<^verbatim>\<open>handleSupergraphResponse\<close>.
\<close>

subsection \<open>The GraphQL syntax tree read by \<^verbatim>\<open>getMeshSource\<close>\<close>

text \<open>
  The node types of graphql-js, as far as the handler reads them. A \<^verbatim>\<open>NameNode\<close> is
  its \<^verbatim>\<open>value\<close> string. Fields carry the node's prefix: \<open>arg_name\<close> and \<open>arg_value\<close> are
  \<^verbatim>\<open>ArgumentNode.name.value\<close> and \<^verbatim>\<open>ArgumentNode.value\<close>, and so on. An optional field
  (\<^verbatim>\<open>arguments?\<close>, \<^verbatim>\<open>directives?\<close>, \<^verbatim>\<open>values?\<close>) is an \<open>option\<close>.
\<close>

datatype value_node =
    Variable string
  | IntValue string
  | FloatValue string
  | StringValue string
  | BooleanValue bool
  | NullValue
  | EnumValue string
  | ListValue "value_node list"
  | ObjectValue "(string \<times> value_node) list"

record argument_node =
  arg_name :: string
  arg_value :: value_node

record directive_node =
  dir_name :: string
  dir_arguments :: "argument_node list option"

record enum_value_definition_node =
  ev_name :: string
  ev_directives :: "directive_node list option"

record enum_type_definition_node =
  enum_name :: string
  enum_directives :: "directive_node list option"
  enum_values :: "enum_value_definition_node list option"

text \<open>The kinds of top-level definition other than \<^verbatim>\<open>'EnumTypeDefinition'\<close>.\<close>

datatype other_kind =
    OperationDefinition | FragmentDefinition | SchemaDefinition
  | ScalarTypeDefinition | ObjectTypeDefinition | InterfaceTypeDefinition
  | UnionTypeDefinition | InputObjectTypeDefinition | DirectiveDefinition
  | SchemaExtension | ScalarTypeExtension | ObjectTypeExtension
  | InterfaceTypeExtension | UnionTypeExtension | EnumTypeExtension
  | InputObjectTypeExtension

datatype definition_node =
    EnumTypeDefinition enum_type_definition_node
  | OtherDefinition other_kind "string option"

record document_node =
  definitions :: "definition_node list"

subsection \<open>The map from subgraph identifiers to real names\<close>

text \<open>The \<^verbatim>\<open>Map<string, string>\<close> called \<^verbatim>\<open>subgraphNameIdMap\<close>.\<close>

type_synonym name_map = "string \<rightharpoonup> string"

text \<open>An optional array under \<^verbatim>\<open>?.forEach\<close> or \<^verbatim>\<open>?.find\<close>: nothing to visit when absent.\<close>

fun optional :: "'a list option \<Rightarrow> 'a list" where
  "optional None = []"
| "optional (Some xs) = xs"

text \<open>
  The predicate of \<^verbatim>\<open>supergraphSdl.definitions.find\<close>:
  \<^verbatim>\<open>def.kind === 'EnumTypeDefinition' && def.name.value === 'join__Graph'\<close>.
\<close>

fun isJoinGraphEnum :: "definition_node \<Rightarrow> bool" where
  "isJoinGraphEnum (EnumTypeDefinition e) = (enum_name e = ''join__Graph'')"
| "isJoinGraphEnum (OtherDefinition k n) = False"

definition joingraphEnum :: "document_node \<Rightarrow> enum_type_definition_node option" where
  "joingraphEnum supergraphSdl =
     (case List.find isJoinGraphEnum (definitions supergraphSdl) of
        Some (EnumTypeDefinition e) \<Rightarrow> Some e
      | _ \<Rightarrow> None)"

text \<open>\<^verbatim>\<open>directive.arguments?.find(arg => arg.name.value === 'name')\<close>\<close>

definition nameArg :: "directive_node \<Rightarrow> argument_node option" where
  "nameArg directive =
     List.find (\<lambda>arg. arg_name arg = ''name'') (optional (dir_arguments directive))"

text \<open>The body of the inner \<^verbatim>\<open>forEach\<close>: one directive of the value called \<open>valueName\<close>.\<close>

definition visitDirective :: "string \<Rightarrow> directive_node \<Rightarrow> name_map \<Rightarrow> name_map" where
  "visitDirective valueName directive m =
     (if dir_name directive = ''join__graph'' then
        (case nameArg directive of
           None \<Rightarrow> m
         | Some arg \<Rightarrow>
             (case arg_value arg of
                StringValue s \<Rightarrow> m(valueName \<mapsto> s)
              | _ \<Rightarrow> m))
      else m)"

text \<open>The body of the outer \<^verbatim>\<open>forEach\<close>: every directive of one enumeration value, in order.\<close>

definition visitValue :: "enum_value_definition_node \<Rightarrow> name_map \<Rightarrow> name_map" where
  "visitValue v m = fold (visitDirective (ev_name v)) (optional (ev_directives v)) m"

definition subgraphNameIdMap :: "document_node \<Rightarrow> name_map" where
  "subgraphNameIdMap supergraphSdl =
     (case joingraphEnum supergraphSdl of
        None \<Rightarrow> Map.empty
      | Some e \<Rightarrow> fold visitValue (optional (enum_values e)) Map.empty)"

text \<open>
  What one directive contributes: the string literal of its first \<^verbatim>\<open>name\<close> argument, when
  the directive is \<^verbatim>\<open>@join__graph\<close> and has one.
\<close>

definition realName :: "directive_node \<Rightarrow> string option" where
  "realName directive =
     (if dir_name directive = ''join__graph'' then
        (case nameArg directive of
           None \<Rightarrow> None
         | Some arg \<Rightarrow> (case arg_value arg of StringValue s \<Rightarrow> Some s | _ \<Rightarrow> None))
      else None)"

text \<open>
  The real names that the values called \<open>k\<close> among \<open>vs\<close> declare, in document order:
  over the values, then over the directives of each value.
\<close>

definition declaredNames :: "enum_value_definition_node list \<Rightarrow> string \<Rightarrow> string list" where
  "declaredNames vs k =
     concat (map (\<lambda>v. List.map_filter realName (optional (ev_directives v)))
                 (filter (\<lambda>v. ev_name v = k) vs))"

subsection \<open>JavaScript values and errors\<close>

text \<open>
  What a retrieval can resolve with at run time, whatever its declared type
  \<^verbatim>\<open>string | DocumentNode\<close>: \<^verbatim>\<open>undefined\<close>, \<^verbatim>\<open>null\<close>, a primitive, an array or an object
  with its own properties in insertion order. A parsed document is such an object, with
  \<^verbatim>\<open>kind: 'Document'\<close>. Numbers are never inspected; integers stand for them.

  An object or an array can contain itself: \<^verbatim>\<open>readFile\<close> yields such an object for a YAML
  file whose anchor is aliased inside the anchored node. \<open>JCycle n\<close> stands, inside an
  object or an array, for a reference back to the \<open>n\<close>-th object or array that encloses it,
  counted from the nearest as 0. So the YAML document with the two lines \<^verbatim>\<open>&a\<close> and
  \<^verbatim>\<open>self: *a\<close> is \<open>JObject [(''self'', JCycle 0)]\<close>.
\<close>

datatype js_value =
    JUndefined
  | JNull
  | JBoolean bool
  | JNumber int
  | JBigInt int
  | JString string
  | JArray "js_value list"
  | JObject "(string \<times> js_value) list"
  | JCycle nat

text \<open>
  A thrown \<^verbatim>\<open>Error\<close> with its \<^verbatim>\<open>message\<close>, and a \<^verbatim>\<open>TypeError\<close> thrown by a built-in
  function with the message that the engine gives it.
\<close>

datatype error = Error (message: string) | TypeError (message: string)

text \<open>The optional-chained read \<^verbatim>\<open>v?.kind\<close>.\<close>

fun kind :: "js_value \<Rightarrow> js_value" where
  "kind JUndefined = JUndefined"
| "kind JNull = JUndefined"
| "kind (JObject props) = (case map_of props ''kind'' of None \<Rightarrow> JUndefined | Some k \<Rightarrow> k)"
| "kind v = JUndefined"

text \<open>
  Whether \<^verbatim>\<open>JSON.stringify(v, null, 2)\<close> throws a \<^verbatim>\<open>TypeError\<close> instead of returning: it
  does when the traversal of \<open>v\<close> reaches a \<^verbatim>\<open>BigInt\<close>, or an object or array that it is
  already inside of (a circular structure).
\<close>

fun JSON_stringify_throws :: "js_value \<Rightarrow> bool" where
  "JSON_stringify_throws (JBigInt n) = True"
| "JSON_stringify_throws (JCycle n) = True"
| "JSON_stringify_throws (JArray vs) = (\<exists>v\<in>set vs. JSON_stringify_throws v)"
| "JSON_stringify_throws (JObject props) = (\<exists>p\<in>set props. JSON_stringify_throws (snd p))"
| "JSON_stringify_throws v = False"

subsection \<open>Configuration and collaborators\<close>

type_synonym headers = "string \<rightharpoonup> string"

text \<open>\<^verbatim>\<open>ResolverData\<close>: the variables of an interpolation; \<open>'a\<close> is an opaque request value.\<close>

record 'a resolver_data =
  root :: "'a option"
  env :: "string \<rightharpoonup> string"
  rd_context :: "'a option"
  rd_info :: "'a option"
  args :: "'a option"

text \<open>The \<^verbatim>\<open>ExecutionRequest\<close> fields that \<^verbatim>\<open>headers\<close> reads.\<close>

record 'a execution_request =
  rootValue :: "'a option"
  req_context :: "'a option"
  req_info :: "'a option"
  variables :: "'a option"

text \<open>
  \<^verbatim>\<open>YamlConfig.SubgraphConfiguration\<close>; the transport options that are spread into the
  executor unread are the record's extension.
\<close>

record subgraph_configuration =
  name :: string
  endpoint :: "string option"
  operationHeaders :: "headers option"

text \<open>\<^verbatim>\<open>YamlConfig.Handler['supergraph']\<close>, the fields of \<^verbatim>\<open>this.config\<close>.\<close>

record handler_config =
  config_source :: string
  config_schemaHeaders :: "headers option"
  config_operationHeaders :: "headers option"
  config_subgraphs :: "subgraph_configuration list option"
  config_batch :: "bool option"

text \<open>The options that \<^verbatim>\<open>readUrl\<close> and \<^verbatim>\<open>readFile\<close> receive from the handler.\<close>

record read_options =
  opt_headers :: headers
  cwd :: string

text \<open>
  The functions that the handler imports and calls, as parameters of the model. A
  retrieval or a parse that throws is \<open>Inl\<close> of the thrown error's \<^verbatim>\<open>message\<close>.
  \<open>JSON_stringify v\<close> is the text that the template literal inserts for
  \<^verbatim>\<open>JSON.stringify(v, null, 2)\<close> when that call returns, and \<open>JSON_stringify_TypeError v\<close>
  the message of the \<^verbatim>\<open>TypeError\<close> that it throws when \<open>JSON_stringify_throws v\<close>. Both
  depend on the value alone.
\<close>

record 'a collaborators =
  process_env :: "string \<rightharpoonup> string"
  stringInterpolator_parse :: "string \<Rightarrow> 'a resolver_data \<Rightarrow> string"
  getInterpolatedStringFactory :: "string \<Rightarrow> 'a resolver_data \<Rightarrow> string"
  getInterpolatedHeadersFactory :: "headers option \<Rightarrow> 'a resolver_data \<Rightarrow> headers"
  isUrl :: "string \<Rightarrow> bool"
  readUrl :: "string \<Rightarrow> read_options \<Rightarrow> string + js_value"
  readFile :: "string \<Rightarrow> read_options \<Rightarrow> string + js_value"
  parse :: "string \<Rightarrow> string + js_value"
  JSON_stringify :: "js_value \<Rightarrow> string"
  JSON_stringify_TypeError :: "js_value \<Rightarrow> string"

subsection \<open>\<^verbatim>\<open>handleSupergraphResponse\<close>\<close>

text \<open>
  In the branch of a payload that is not a document, the template literal evaluates
  \<^verbatim>\<open>JSON.stringify\<close> before \<^verbatim>\<open>new Error\<close> is called, and nothing catches around it: when
  it throws, its \<^verbatim>\<open>TypeError\<close> is what \<^verbatim>\<open>handleSupergraphResponse\<close> throws.
\<close>

definition invalidResult :: "string \<Rightarrow> string" where
  "invalidResult interpolatedSource =
     ''Supergraph source must be a valid GraphQL SDL string or a parsed DocumentNode, but got an invalid result from ''
     @ interpolatedSource @ '' instead.'' @ [CHR 0x0A] @ '' Got result: ''"

definition handleSupergraphResponse ::
  "'a collaborators \<Rightarrow> js_value \<Rightarrow> string \<Rightarrow> error + js_value" where
  "handleSupergraphResponse io sdlOrDocumentNode interpolatedSource =
     (case sdlOrDocumentNode of
        JString sdl \<Rightarrow>
          (case parse io sdl of
             Inr document \<Rightarrow> Inr document
           | Inl e_message \<Rightarrow>
               Inl (Error (invalidResult interpolatedSource @ sdl @ [CHR 0x0A]
                           @ '' Got error: '' @ e_message)))
      | _ \<Rightarrow>
          (if kind sdlOrDocumentNode \<noteq> JString ''Document''
           then (if JSON_stringify_throws sdlOrDocumentNode
                 then Inl (TypeError (JSON_stringify_TypeError io sdlOrDocumentNode))
                 else Inl (Error (invalidResult interpolatedSource
                                  @ JSON_stringify io sdlOrDocumentNode)))
           else Inr sdlOrDocumentNode))"

subsection \<open>\<^verbatim>\<open>getSupergraphSdl\<close>\<close>

text \<open>
  The state of a handler instance and the calls it has made so far: the store behind the
  proxy \<^verbatim>\<open>this.supergraphSdl\<close>, and a log with one entry for each call of a retrieval
  collaborator and each access to the store.
\<close>

datatype event =
    ReadUrl string
  | ReadFile string
  | StoreGet string
  | StoreSet string

record handler_state =
  store :: "string \<rightharpoonup> js_value"
  events :: "event list"

definition record_event :: "event \<Rightarrow> handler_state \<Rightarrow> handler_state" where
  "record_event ev s = s\<lparr>events := events s @ [ev]\<rparr>"

type_synonym 'r effect = "handler_state \<Rightarrow> (error + 'r) \<times> handler_state"

text \<open>
  Modelled from the spec: \<^verbatim>\<open>StoreProxy.getWithSet\<close> of \<^verbatim>\<open>@graphql-mesh/store\<close>, which is not
  among the sources. The spec: consult a cache keyed by a fixed logical name; on miss, read
  the local resource and populate the cache with the parsed result; on hit, return the
  cached value without re-reading. A load that fails populates nothing.
\<close>

definition getWithSet :: "string \<Rightarrow> js_value effect \<Rightarrow> js_value effect" where
  "getWithSet key setterFn s =
     (let s1 = record_event (StoreGet key) s in
      case store s1 key of
        Some cached \<Rightarrow> (Inr cached, s1)
      | None \<Rightarrow>
          (case setterFn s1 of
             (Inl e, s2) \<Rightarrow> (Inl e, s2)
           | (Inr v, s2) \<Rightarrow>
               (Inr v, record_event (StoreSet key) (s2\<lparr>store := (store s2)(key \<mapsto> v)\<rparr>))))"

definition failedToLoad :: "string \<Rightarrow> string \<Rightarrow> error" where
  "failedToLoad interpolatedSource e_message =
     Error (''Failed to load supergraph SDL from '' @ interpolatedSource @ '':''
            @ [CHR 0x0A] @ '' '' @ e_message)"

text \<open>The resolver data \<^verbatim>\<open>{ env: process.env }\<close> of load time.\<close>

definition envOnly :: "'a collaborators \<Rightarrow> 'a resolver_data" where
  "envOnly io = \<lparr>root = None, env = process_env io, rd_context = None, rd_info = None, args = None\<rparr>"

definition readOptions :: "'a collaborators \<Rightarrow> handler_config \<Rightarrow> string \<Rightarrow> read_options" where
  "readOptions io config baseDir =
     \<lparr>opt_headers = getInterpolatedHeadersFactory io (config_schemaHeaders config) (envOnly io),
      cwd = baseDir\<rparr>"

text \<open>The proxy is created in the constructor as \<^verbatim>\<open>store.proxy('nonExecutableSchema', ...)\<close>.\<close>

definition supergraphSdl_key :: string where
  "supergraphSdl_key = ''nonExecutableSchema''"

text \<open>
  \<^verbatim>\<open>const interpolatedSource = stringInterpolator.parse(this.config.source, { env: process.env })\<close>
\<close>

definition interpolatedSource :: "'a collaborators \<Rightarrow> handler_config \<Rightarrow> string" where
  "interpolatedSource io config =
     stringInterpolator_parse io (config_source config) (envOnly io)"

text \<open>The function passed to \<^verbatim>\<open>getWithSet\<close>: read the file, then normalise what was read.\<close>

definition readSupergraphFile ::
  "'a collaborators \<Rightarrow> handler_config \<Rightarrow> string \<Rightarrow> js_value effect" where
  "readSupergraphFile io config baseDir s =
     (let s1 = record_event (ReadFile (interpolatedSource io config)) s in
      case readFile io (interpolatedSource io config) (readOptions io config baseDir) of
        Inl e_message \<Rightarrow> (Inl (failedToLoad (interpolatedSource io config) e_message), s1)
      | Inr sdlOrIntrospection \<Rightarrow>
          (handleSupergraphResponse io sdlOrIntrospection (interpolatedSource io config), s1))"

definition getSupergraphSdl ::
  "'a collaborators \<Rightarrow> handler_config \<Rightarrow> string \<Rightarrow> js_value effect" where
  "getSupergraphSdl io config baseDir s =
     (if isUrl io (interpolatedSource io config) then
        (let s1 = record_event (ReadUrl (interpolatedSource io config)) s in
         case readUrl io (interpolatedSource io config) (readOptions io config baseDir) of
           Inl e_message \<Rightarrow> (Inl (failedToLoad (interpolatedSource io config) e_message), s1)
         | Inr res \<Rightarrow> (handleSupergraphResponse io res (interpolatedSource io config), s1))
      else getWithSet supergraphSdl_key (readSupergraphFile io config baseDir) s)"

text \<open>Loading \<open>n\<close> times in sequence on one handler instance: the results and the final state.\<close>

fun loadTimes ::
  "'a collaborators \<Rightarrow> handler_config \<Rightarrow> string \<Rightarrow> nat \<Rightarrow> handler_state
     \<Rightarrow> (error + js_value) list \<times> handler_state" where
  "loadTimes io config baseDir 0 s = ([], s)"
| "loadTimes io config baseDir (Suc n) s =
     (case getSupergraphSdl io config baseDir s of
        (r, s1) \<Rightarrow>
          (case loadTimes io config baseDir n s1 of
             (rs, s2) \<Rightarrow> (r # rs, s2)))"

text \<open>How often a load has called each retrieval collaborator.\<close>

fun isReadUrl :: "event \<Rightarrow> bool" where
  "isReadUrl (ReadUrl l) = True"
| "isReadUrl ev = False"

fun isReadFile :: "event \<Rightarrow> bool" where
  "isReadFile (ReadFile l) = True"
| "isReadFile ev = False"

definition readUrlCalls :: "handler_state \<Rightarrow> nat" where
  "readUrlCalls s = length (filter isReadUrl (events s))"

definition readFileCalls :: "handler_state \<Rightarrow> nat" where
  "readFileCalls s = length (filter isReadFile (events s))"

subsection \<open>\<^verbatim>\<open>String.prototype.replace\<close> with a string pattern\<close>

text \<open>
  A JavaScript string is a sequence of code units, here a list of characters.
  \<^verbatim>\<open>url.replace(nonInterpolatedEndpoint, endpoint)\<close> is called with two strings. ECMAScript
  then looks for the first occurrence of the pattern from index 0 (\<^verbatim>\<open>StringIndexOf\<close>) and
  replaces it with the expansion of the replacement text (\<^verbatim>\<open>GetSubstitution\<close>, with no
  captures): there \<^verbatim>\<open>$$\<close> stands for a dollar sign, \<^verbatim>\<open>$&\<close> for the matched text,
  \<^verbatim>\<open>$`\<close> for the text before the match and \<^verbatim>\<open>$'\<close> for the text after it; any other
  \<^verbatim>\<open>$\<close> stands for itself.
\<close>

fun indexOf :: "string \<Rightarrow> string \<Rightarrow> nat option" where
  "indexOf [] searchValue = (if searchValue = [] then Some 0 else None)"
| "indexOf (c # cs) searchValue =
     (if prefix searchValue (c # cs) then Some 0
      else map_option Suc (indexOf cs searchValue))"

fun getSubstitution :: "string \<Rightarrow> string \<Rightarrow> string \<Rightarrow> string \<Rightarrow> string" where
  "getSubstitution matched preceding following [] = []"
| "getSubstitution matched preceding following [c] = [c]"
| "getSubstitution matched preceding following (c # d # templ) =
     (if c = CHR ''$'' then
        (if d = CHR ''$'' then CHR ''$'' # getSubstitution matched preceding following templ
         else if d = CHR ''&'' then matched @ getSubstitution matched preceding following templ
         else if d = CHR 0x60 then preceding @ getSubstitution matched preceding following templ
         else if d = CHR 0x27 then following @ getSubstitution matched preceding following templ
         else c # getSubstitution matched preceding following (d # templ))
      else c # getSubstitution matched preceding following (d # templ))"

definition String_replace :: "string \<Rightarrow> string \<Rightarrow> string \<Rightarrow> string" where
  "String_replace str searchValue replaceValue =
     (case indexOf str searchValue of
        None \<Rightarrow> str
      | Some position \<Rightarrow>
          (let preceding = take position str;
               following = drop (position + length searchValue) str
           in preceding
              @ getSubstitution searchValue preceding following replaceValue
              @ following))"

subsection \<open>\<^verbatim>\<open>onSubschemaConfig\<close>: the executor of one subgraph\<close>

text \<open>
  \<^verbatim>\<open>subgraphConfigs.find(subgraphConfig => subgraphConfig.name === subgraphRealName)
  || { name: subgraphName }\<close>, where \<^verbatim>\<open>subgraphRealName\<close> is
  \<^verbatim>\<open>subgraphNameIdMap.get(subgraphName)\<close>, \<^verbatim>\<open>undefined\<close> for an unmapped identifier.
\<close>

definition subgraphConfiguration ::
  "name_map \<Rightarrow> subgraph_configuration list \<Rightarrow> string \<Rightarrow> subgraph_configuration" where
  "subgraphConfiguration nameIdMap subgraphConfigs subgraphName =
     (let subgraphRealName = nameIdMap subgraphName in
      case List.find (\<lambda>subgraphConfig. Some (name subgraphConfig) = subgraphRealName)
                     subgraphConfigs of
        Some found \<Rightarrow> found
      | None \<Rightarrow> \<lparr>name = subgraphName, endpoint = None, operationHeaders = None\<rparr>)"

text \<open>
  \<^verbatim>\<open>subgraphConfiguration.endpoint || nonInterpolatedEndpoint\<close>: the operator \<^verbatim>\<open>||\<close> takes its
  right operand when the left one is falsy, which for an optional string is \<^verbatim>\<open>undefined\<close>,
  \<^verbatim>\<open>null\<close> and the empty string.
\<close>

definition nonInterpolatedEndpoint :: "subgraph_configuration \<Rightarrow> string \<Rightarrow> string" where
  "nonInterpolatedEndpoint configuration declared =
     (case endpoint configuration of
        None \<Rightarrow> declared
      | Some e \<Rightarrow> if e = [] then declared else e)"

text \<open>
  The options given to \<^verbatim>\<open>buildHTTPExecutor\<close>. \<open>exec_fetch\<close> yields the URL that the
  \<^verbatim>\<open>fetch\<close> option passes on to \<^verbatim>\<open>fetchFn\<close>.
\<close>

record 'a http_executor_options =
  exec_endpoint :: string
  exec_fetch :: "string \<Rightarrow> 'a option \<Rightarrow> 'a option \<Rightarrow> string"
  exec_headers :: "'a execution_request \<Rightarrow> headers"

text \<open>The argument \<^verbatim>\<open>{ env: process.env, context, info }\<close> of \<^verbatim>\<open>endpointFactory\<close>.\<close>

definition endpointData :: "'a collaborators \<Rightarrow> 'a option \<Rightarrow> 'a option \<Rightarrow> 'a resolver_data" where
  "endpointData io requestContext requestInfo =
     \<lparr>root = None, env = process_env io, rd_context = requestContext,
      rd_info = requestInfo, args = None\<rparr>"

definition fetch ::
  "'a collaborators \<Rightarrow> string \<Rightarrow> string \<Rightarrow> 'a option \<Rightarrow> 'a option \<Rightarrow> string" where
  "fetch io nonInterpolated url requestContext requestInfo =
     (let endpoint =
            getInterpolatedStringFactory io nonInterpolated
              (endpointData io requestContext requestInfo)
      in String_replace url nonInterpolated endpoint)"

text \<open>\<^verbatim>\<open>Object.assign(headers, source)\<close> on header objects: the source's keys overwrite.\<close>

definition Object_assign :: "headers \<Rightarrow> headers \<Rightarrow> headers" where
  "Object_assign target source = target ++ source"

text \<open>The \<^verbatim>\<open>resolverData\<close> built from the request that the executor is running.\<close>

definition resolverData :: "'a collaborators \<Rightarrow> 'a execution_request \<Rightarrow> 'a resolver_data" where
  "resolverData io executorRequest =
     \<lparr>root = rootValue executorRequest, env = process_env io,
      rd_context = req_context executorRequest, rd_info = req_info executorRequest,
      args = variables executorRequest\<rparr>"

definition headers ::
  "'a collaborators \<Rightarrow> handler_config \<Rightarrow> subgraph_configuration
     \<Rightarrow> 'a execution_request \<Rightarrow> headers" where
  "headers io config configuration executorRequest =
     (let headers0 = Map.empty;
          headers1 =
            (case operationHeaders configuration of
               None \<Rightarrow> headers0
             | Some templ \<Rightarrow>
                 Object_assign headers0
                   (getInterpolatedHeadersFactory io (Some templ)
                      (resolverData io executorRequest)));
          headers2 =
            (case config_operationHeaders config of
               None \<Rightarrow> headers1
             | Some templ \<Rightarrow>
                 Object_assign headers1
                   (getInterpolatedHeadersFactory io (Some templ)
                      (resolverData io executorRequest)))
      in headers2)"

text \<open>
  The callback, called with the assembler's \<^verbatim>\<open>subgraphConfig.name\<close> and
  \<^verbatim>\<open>subgraphConfig.endpoint\<close>; \<^verbatim>\<open>subgraphConfigs\<close> is \<^verbatim>\<open>this.config.subgraphs || []\<close>.
\<close>

definition onSubschemaConfig ::
  "'a collaborators \<Rightarrow> handler_config \<Rightarrow> name_map \<Rightarrow> string \<Rightarrow> string
     \<Rightarrow> 'a http_executor_options" where
  "onSubschemaConfig io config nameIdMap subgraphName declaredEndpoint =
     (let subgraphConfigs = optional (config_subgraphs config);
          configuration = subgraphConfiguration nameIdMap subgraphConfigs subgraphName;
          nonInterpolated = nonInterpolatedEndpoint configuration declaredEndpoint
      in \<lparr>exec_endpoint = nonInterpolated,
          exec_fetch = fetch io nonInterpolated,
          exec_headers = headers io config configuration\<rparr>)"

subsection \<open>Example documents, configurations and collaborators\<close>

text \<open>The directive \<^verbatim>\<open>@join__graph(name: v)\<close>.\<close>

definition joinGraphDirective :: "value_node \<Rightarrow> directive_node" where
  "joinGraphDirective v =
     \<lparr>dir_name = ''join__graph'', dir_arguments = Some [\<lparr>arg_name = ''name'', arg_value = v\<rparr>]\<rparr>"



text \<open>
  \<^verbatim>\<open>enum join__Graph { A @join__graph(name: 1) @join__graph(name: "first")
  @join__graph(name: "second") }\<close>
\<close>

definition repeatedEnum :: enum_type_definition_node where
  "repeatedEnum =
     \<lparr>enum_name = ''join__Graph'', enum_directives = Some [],
      enum_values = Some
        [\<lparr>ev_name = ''A'', ev_directives = Some
           [joinGraphDirective (IntValue ''1''),
            joinGraphDirective (StringValue ''first''),
            joinGraphDirective (StringValue ''second'')]\<rparr>]\<rparr>"

definition repeatedDocument :: document_node where
  "repeatedDocument = \<lparr>definitions = [EnumTypeDefinition repeatedEnum]\<rparr>"




text \<open>The name map of the fixture.\<close>

definition fixtureNames :: name_map where
  "fixtureNames = [''A'' \<mapsto> ''svcA'', ''B'' \<mapsto> ''svcB'']"

text \<open>
  The object that the YAML document \<^verbatim>\<open>&a\<close>, \<^verbatim>\<open>self: *a\<close> is read as, and the message of
  the \<^verbatim>\<open>TypeError\<close> that \<^verbatim>\<open>JSON.stringify\<close> throws on it in Node.js.
\<close>

definition selfContaining :: js_value where
  "selfContaining = JObject [(''self'', JCycle 0)]"

definition circularMessage :: string where
  "circularMessage =
     ''Converting circular structure to JSON'' @ [CHR 0x0A]
     @ ''    --> starting at object with constructor '' @ [CHR 0x27] @ ''Object'' @ [CHR 0x27]
     @ [CHR 0x0A]
     @ ''    --- property '' @ [CHR 0x27] @ ''self'' @ [CHR 0x27] @ '' closes the circle''"

text \<open>
  Stand-ins for the collaborators: interpolation leaves a template as it is, every
  retrieval yields the text \<^verbatim>\<open>type Query\<close>, which alone parses.
\<close>

definition stubDocument :: js_value where
  "stubDocument = JObject [(''kind'', JString ''Document''), (''definitions'', JArray [])]"

definition stubRendering :: string where
  "stubRendering = ''{'' @ [CHR 0x0A] @ ''  \"data\": null'' @ [CHR 0x0A] @ ''}''"

definition stub :: "unit collaborators" where
  "stub =
     \<lparr>process_env = Map.empty,
      stringInterpolator_parse = (\<lambda>templ resolverData. templ),
      getInterpolatedStringFactory = (\<lambda>templ resolverData. templ),
      getInterpolatedHeadersFactory =
        (\<lambda>templ resolverData. case templ of None \<Rightarrow> Map.empty | Some h \<Rightarrow> h),
      isUrl = (\<lambda>l. prefix ''http://'' l \<or> prefix ''https://'' l),
      readUrl = (\<lambda>l opts. Inr (JString ''type Query'')),
      readFile = (\<lambda>l opts. Inr (JString ''type Query'')),
      parse = (\<lambda>sdl. if sdl = ''type Query'' then Inr stubDocument
                       else Inl ''Syntax Error: Unexpected <EOF>.''),
      JSON_stringify =
        (\<lambda>v. if v = JNull then ''null'' else if v = JUndefined then ''undefined''
              else stubRendering),
      JSON_stringify_TypeError = (\<lambda>v. circularMessage)\<rparr>"

text \<open>The stand-ins with endpoint templates that interpolation changes.\<close>

definition prodStub :: "unit collaborators" where
  "prodStub =
     stub\<lparr>getInterpolatedStringFactory :=
            (\<lambda>templ resolverData.
               if templ = ''https://svc/graphql'' then ''https://svc-prod/graphql''
               else if templ = ''/graphql'' then ''/v2/graphql''
               else templ)\<rparr>"

definition stubConfig :: "string \<Rightarrow> handler_config" where
  "stubConfig l =
     \<lparr>config_source = l, config_schemaHeaders = None, config_operationHeaders = None,
      config_subgraphs = None, config_batch = None\<rparr>"

definition overridingConfig :: handler_config where
  "overridingConfig =
     \<lparr>config_source = ''./supergraph.graphql'', config_schemaHeaders = None,
      config_operationHeaders = Some [''B'' \<mapsto> ''3'', ''C'' \<mapsto> ''4''],
      config_subgraphs = Some
        [\<lparr>name = ''svcA'', endpoint = Some ''https://override/graphql'',
          operationHeaders = Some [''A'' \<mapsto> ''1'', ''B'' \<mapsto> ''2'']\<rparr>,
         \<lparr>name = ''svcB'', endpoint = None, operationHeaders = None\<rparr>],
      config_batch = None\<rparr>"

definition emptyEndpointConfig :: handler_config where
  "emptyEndpointConfig =
     \<lparr>config_source = ''./supergraph.graphql'', config_schemaHeaders = None,
      config_operationHeaders = None,
      config_subgraphs = Some [\<lparr>name = ''svcA'', endpoint = Some '''', operationHeaders = None\<rparr>],
      config_batch = None\<rparr>"

definition request :: "unit execution_request" where
  "request = \<lparr>rootValue = None, req_context = None, req_info = None, variables = None\<rparr>"

text \<open>States of a handler: new, after one and two loads of a file, after one and two of a URL.\<close>

definition fresh :: handler_state where
  "fresh = \<lparr>store = Map.empty, events = []\<rparr>"

definition loadedOnce :: handler_state where
  "loadedOnce =
     \<lparr>store = [supergraphSdl_key \<mapsto> stubDocument],
      events = [StoreGet supergraphSdl_key, ReadFile ''./supergraph.graphql'',
                StoreSet supergraphSdl_key]\<rparr>"

definition loadedTwice :: handler_state where
  "loadedTwice = record_event (StoreGet supergraphSdl_key) loadedOnce"

definition fetchedOnce :: handler_state where
  "fetchedOnce = \<lparr>store = Map.empty, events = [ReadUrl ''https://cdn/supergraph.graphql'']\<rparr>"

definition fetchedTwice :: handler_state where
  "fetchedTwice =
     \<lparr>store = Map.empty,
      events = [ReadUrl ''https://cdn/supergraph.graphql'',
                ReadUrl ''https://cdn/supergraph.graphql'']\<rparr>"

section \<open>The name map\<close>

subsection \<open>What the two loops compute\<close>

lemma visitDirective_realName:
  "visitDirective n d m = (case realName d of None \<Rightarrow> m | Some s \<Rightarrow> m(n \<mapsto> s))"
  by (simp add: visitDirective_def realName_def split: option.splits value_node.splits)

lemma fold_visitDirective:
  "fold (visitDirective n) ds m k =
     (if k = n \<and> List.map_filter realName ds \<noteq> [] then Some (last (List.map_filter realName ds))
      else m k)"
proof (induction ds arbitrary: m)
  case Nil
  then show ?case by simp
next
  case (Cons d ds)
  then show ?case
    by (cases "realName d") (auto simp: visitDirective_realName)
qed

lemma visitValue_lookup:
  "visitValue v m k =
     (if k = ev_name v \<and> List.map_filter realName (optional (ev_directives v)) \<noteq> []
      then Some (last (List.map_filter realName (optional (ev_directives v))))
      else m k)"
  by (simp add: visitValue_def fold_visitDirective)

lemma fold_visitValue:
  "fold visitValue vs m k =
     (if declaredNames vs k = [] then m k else Some (last (declaredNames vs k)))"
proof (induction vs arbitrary: m)
  case Nil
  then show ?case by (simp add: declaredNames_def)
next
  case (Cons v vs)
  have "fold visitValue (v # vs) m k = fold visitValue vs (visitValue v m) k"
    by simp
  also have "\<dots> = (if declaredNames vs k = [] then visitValue v m k
                    else Some (last (declaredNames vs k)))"
    by (rule Cons.IH)
  also have "\<dots> = (if declaredNames (v # vs) k = [] then m k
                    else Some (last (declaredNames (v # vs) k)))"
    unfolding visitValue_lookup by (auto simp: declaredNames_def)
  finally show ?case .
qed

lemma subgraphNameIdMap_lookup:
  "subgraphNameIdMap doc k =
     (case joingraphEnum doc of
        None \<Rightarrow> None
      | Some e \<Rightarrow>
          if declaredNames (optional (enum_values e)) k = [] then None
          else Some (last (declaredNames (optional (enum_values e)) k)))"
  by (simp add: subgraphNameIdMap_def fold_visitValue split: option.splits)



subsection \<open>\<^verbatim>\<open>find\<close> returns the first match\<close>

lemma find_Some_split:
  "List.find P xs = Some x \<longleftrightarrow>
     (\<exists>before after. xs = before @ x # after \<and> P x \<and> (\<forall>d\<in>set before. \<not> P d))"
proof (induction xs)
  case Nil
  then show ?case by simp
next
  case (Cons y ys)
  show ?case
  proof (cases "P y")
    case True
    have "(\<exists>before after. y # ys = before @ x # after \<and> P x \<and> (\<forall>d\<in>set before. \<not> P d))
            \<longleftrightarrow> x = y"
    proof
      assume "\<exists>before after. y # ys = before @ x # after \<and> P x \<and> (\<forall>d\<in>set before. \<not> P d)"
      then obtain before after
        where split: "y # ys = before @ x # after" and none: "\<forall>d\<in>set before. \<not> P d"
        by blast
      show "x = y"
      proof (cases before)
        case Nil
        with split show ?thesis by simp
      next
        case (Cons b bs)
        with split none True show ?thesis by simp
      qed
    next
      assume "x = y"
      with True have "y # ys = [] @ x # ys \<and> P x \<and> (\<forall>d\<in>set []. \<not> P d)" by simp
      then show "\<exists>before after. y # ys = before @ x # after \<and> P x \<and> (\<forall>d\<in>set before. \<not> P d)"
        by blast
    qed
    with True show ?thesis by auto
  next
    case False
    have "(\<exists>before after. y # ys = before @ x # after \<and> P x \<and> (\<forall>d\<in>set before. \<not> P d))
            \<longleftrightarrow> (\<exists>before after. ys = before @ x # after \<and> P x \<and> (\<forall>d\<in>set before. \<not> P d))"
    proof
      assume "\<exists>before after. y # ys = before @ x # after \<and> P x \<and> (\<forall>d\<in>set before. \<not> P d)"
      then obtain before after
        where split: "y # ys = before @ x # after" and px: "P x"
          and none: "\<forall>d\<in>set before. \<not> P d"
        by blast
      show "\<exists>before after. ys = before @ x # after \<and> P x \<and> (\<forall>d\<in>set before. \<not> P d)"
      proof (cases before)
        case Nil
        with split px False show ?thesis by simp
      next
        case (Cons b bs)
        with split none px have "ys = bs @ x # after \<and> P x \<and> (\<forall>d\<in>set bs. \<not> P d)" by simp
        then show ?thesis by blast
      qed
    next
      assume "\<exists>before after. ys = before @ x # after \<and> P x \<and> (\<forall>d\<in>set before. \<not> P d)"
      then obtain before after
        where "ys = before @ x # after" and "P x" and "\<forall>d\<in>set before. \<not> P d"
        by blast
      with False
      have "y # ys = (y # before) @ x # after \<and> P x \<and> (\<forall>d\<in>set (y # before). \<not> P d)"
        by simp
      then show "\<exists>before after. y # ys = before @ x # after \<and> P x \<and> (\<forall>d\<in>set before. \<not> P d)"
        by blast
    qed
    with False Cons.IH show ?thesis by simp
  qed
qed

lemma find_holds: "List.find P xs = Some x \<Longrightarrow> P x"
  by (simp add: find_Some_split) blast

lemma joingraphEnum_find:
  "joingraphEnum doc = Some e \<longleftrightarrow>
     List.find isJoinGraphEnum (definitions doc) = Some (EnumTypeDefinition e)"
proof (cases "List.find isJoinGraphEnum (definitions doc)")
  case None
  then show ?thesis by (simp add: joingraphEnum_def)
next
  case (Some d)
  then have "isJoinGraphEnum d" by (rule find_holds)
  with Some show ?thesis by (cases d) (simp_all add: joingraphEnum_def)
qed

text \<open>
  The enumeration that the handler reads is the first top-level enumeration definition
  called \<^verbatim>\<open>join__Graph\<close>.
\<close>

lemma joingraphEnum_Some_iff:
  "joingraphEnum doc = Some e \<longleftrightarrow>
     (\<exists>before after. definitions doc = before @ EnumTypeDefinition e # after
        \<and> enum_name e = ''join__Graph'' \<and> (\<forall>d\<in>set before. \<not> isJoinGraphEnum d))"
  by (simp add: joingraphEnum_find find_Some_split)


subsection \<open>The examples\<close>


lemma joingraphEnum_repeated: "joingraphEnum repeatedDocument = Some repeatedEnum"
  by (simp add: joingraphEnum_def repeatedDocument_def repeatedEnum_def)

lemma realName_joinGraphDirective:
  "realName (joinGraphDirective v) = (case v of StringValue s \<Rightarrow> Some s | _ \<Rightarrow> None)"
  by (simp add: realName_def joinGraphDirective_def nameArg_def split: value_node.splits)

lemma declaredNames_repeated:
  "declaredNames (optional (enum_values repeatedEnum)) ''A'' = [''first'', ''second'']"
  by (simp add: declaredNames_def repeatedEnum_def realName_joinGraphDirective)

subsection \<open>Repeated directives\<close>

text \<open>
  Claim C1, as the code has it. The spec keeps the first directive whose \<^verbatim>\<open>name\<close> argument
  is a string literal; the handler calls \<^verbatim>\<open>Map.set\<close> for every such directive, so the entry
  of an identifier is the value of the last one, over all values of that name in the first
  \<^verbatim>\<open>join__Graph\<close> enumeration; directives without a string-literal name contribute nothing,
  and an identifier has at most one entry.
\<close>

theorem subgraphNameIdMap_last_match_wins:
  "joingraphEnum doc = Some e \<Longrightarrow>
     subgraphNameIdMap doc k =
       (if declaredNames (optional (enum_values e)) k = [] then None
        else Some (last (declaredNames (optional (enum_values e)) k)))"
  by (simp add: subgraphNameIdMap_lookup)

theorem subgraphNameIdMap_last_match_wins_witness:
  "joingraphEnum repeatedDocument = Some repeatedEnum
     \<and> declaredNames (optional (enum_values repeatedEnum)) ''A'' = [''first'', ''second'']
     \<and> subgraphNameIdMap repeatedDocument ''A'' = Some ''second''"
  using subgraphNameIdMap_last_match_wins [OF joingraphEnum_repeated, of "''A''"]
  by (simp add: joingraphEnum_repeated declaredNames_repeated)

text \<open>
  Claim C1 as the spec states it fails: the value \<^verbatim>\<open>A\<close> carries the directive with the
  names \<^verbatim>\<open>1\<close>, \<^verbatim>\<open>"first"\<close> and \<^verbatim>\<open>"second"\<close>, and its entry is not \<^verbatim>\<open>"first"\<close>.
\<close>

theorem first_match_wins_counterexample:
  "ev_directives (hd (optional (enum_values repeatedEnum))) =
       Some [joinGraphDirective (IntValue ''1''),
             joinGraphDirective (StringValue ''first''),
             joinGraphDirective (StringValue ''second'')]
     \<and> subgraphNameIdMap repeatedDocument ''A'' \<noteq> Some ''first''"
  by (simp add: subgraphNameIdMap_def joingraphEnum_repeated)
     (simp add: repeatedEnum_def visitValue_def visitDirective_def joinGraphDirective_def
        nameArg_def)

subsection \<open>Which identifiers have an entry\<close>




section \<open>The executor of a subgraph\<close>

subsection \<open>The endpoint\<close>

lemma configuration_A:
  "subgraphConfiguration fixtureNames (optional (config_subgraphs overridingConfig)) ''A''
     = \<lparr>name = ''svcA'', endpoint = Some ''https://override/graphql'',
        operationHeaders = Some [''A'' \<mapsto> ''1'', ''B'' \<mapsto> ''2'']\<rparr>"
  by (simp add: subgraphConfiguration_def fixtureNames_def overridingConfig_def)

lemma configuration_B:
  "subgraphConfiguration fixtureNames (optional (config_subgraphs overridingConfig)) ''B''
     = \<lparr>name = ''svcB'', endpoint = None, operationHeaders = None\<rparr>"
  by (simp add: subgraphConfiguration_def fixtureNames_def overridingConfig_def)

text \<open>
  Claim C2, as the code has it. The endpoint of the executor, which is also the pattern and
  the template of its \<^verbatim>\<open>fetch\<close>, is the \<^verbatim>\<open>endpoint\<close> of the subgraph's configuration when
  that is a non-empty string, and the endpoint declared by the assembler when it is absent
  or empty: the handler combines them with \<^verbatim>\<open>||\<close>, not with \<^verbatim>\<open>??\<close>.
\<close>

theorem effective_endpoint:
  "(endpoint (subgraphConfiguration nameIdMap (optional (config_subgraphs config)) subgraphName)
      = Some override \<and> override \<noteq> [] \<longrightarrow>
      exec_endpoint (onSubschemaConfig io config nameIdMap subgraphName declaredEndpoint) = override
      \<and> exec_fetch (onSubschemaConfig io config nameIdMap subgraphName declaredEndpoint)
          = fetch io override)
   \<and> (endpoint (subgraphConfiguration nameIdMap (optional (config_subgraphs config)) subgraphName)
         = None
       \<or> endpoint (subgraphConfiguration nameIdMap (optional (config_subgraphs config)) subgraphName)
         = Some [] \<longrightarrow>
      exec_endpoint (onSubschemaConfig io config nameIdMap subgraphName declaredEndpoint)
        = declaredEndpoint
      \<and> exec_fetch (onSubschemaConfig io config nameIdMap subgraphName declaredEndpoint)
          = fetch io declaredEndpoint)"
  by (auto simp: onSubschemaConfig_def nonInterpolatedEndpoint_def Let_def)

theorem effective_endpoint_witness:
  "endpoint (subgraphConfiguration fixtureNames (optional (config_subgraphs overridingConfig)) ''A'')
     = Some ''https://override/graphql''
   \<and> exec_endpoint (onSubschemaConfig stub overridingConfig fixtureNames ''A'' ''https://a/graphql'')
       = ''https://override/graphql''
   \<and> endpoint (subgraphConfiguration fixtureNames (optional (config_subgraphs overridingConfig)) ''B'')
     = None
   \<and> exec_endpoint (onSubschemaConfig stub overridingConfig fixtureNames ''B'' ''https://b/graphql'')
       = ''https://b/graphql''"
  using effective_endpoint
      [of fixtureNames overridingConfig "''A''" "''https://override/graphql''" stub
          "''https://a/graphql''"]
    effective_endpoint
      [of fixtureNames overridingConfig "''B''" "''''" stub "''https://b/graphql''"]
  by (simp add: configuration_A configuration_B)

text \<open>
  Claim C2 as the spec states it fails: the configuration of \<^verbatim>\<open>svcA\<close> has the endpoint
  \<^verbatim>\<open>""\<close>, which is present and neither \<^verbatim>\<open>null\<close> nor \<^verbatim>\<open>undefined\<close>, and the executor is
  bound to the declared endpoint.
\<close>

theorem empty_endpoint_counterexample:
  "endpoint (subgraphConfiguration fixtureNames (optional (config_subgraphs emptyEndpointConfig)) ''A'')
     = Some ''''
   \<and> exec_endpoint (onSubschemaConfig stub emptyEndpointConfig fixtureNames ''A'' ''https://a/graphql'')
       = ''https://a/graphql''"
  by (simp add: onSubschemaConfig_def subgraphConfiguration_def nonInterpolatedEndpoint_def
        fixtureNames_def emptyEndpointConfig_def Let_def)

subsection \<open>The headers\<close>

text \<open>
  Claim C3. When the subgraph's configuration and the handler both have an
  \<^verbatim>\<open>operationHeaders\<close> template, the headers that the executor computes for a request have
  the keys of both evaluated templates; a key of the handler's has the handler's value, any
  other key the subgraph's. So \<^verbatim>\<open>{A: "1", B: "2"}\<close> and \<^verbatim>\<open>{B: "3", C: "4"}\<close> give
  \<^verbatim>\<open>{A: "1", B: "3", C: "4"}\<close>.
\<close>

theorem headers_merged:
  assumes "operationHeaders
             (subgraphConfiguration nameIdMap (optional (config_subgraphs config)) subgraphName)
           = Some subgraphTemplate"
    and "config_operationHeaders config = Some handlerTemplate"
    and "merged =
           exec_headers (onSubschemaConfig io config nameIdMap subgraphName declaredEndpoint)
             executorRequest"
    and "fromSubgraph =
           getInterpolatedHeadersFactory io (Some subgraphTemplate)
             (resolverData io executorRequest)"
    and "fromHandler =
           getInterpolatedHeadersFactory io (Some handlerTemplate)
             (resolverData io executorRequest)"
  shows "dom merged = dom fromSubgraph \<union> dom fromHandler
         \<and> (\<forall>k\<in>dom fromHandler. merged k = fromHandler k)
         \<and> (\<forall>k. k \<notin> dom fromHandler \<longrightarrow> merged k = fromSubgraph k)"
proof -
  have "merged = fromSubgraph ++ fromHandler"
    using assms
    by (simp add: onSubschemaConfig_def headers_def Object_assign_def Let_def)
  then show ?thesis
    by (auto simp: map_add_def dom_def split: option.splits)
qed

theorem headers_merged_witness:
  "operationHeaders
      (subgraphConfiguration fixtureNames (optional (config_subgraphs overridingConfig)) ''A'')
     = Some [''A'' \<mapsto> ''1'', ''B'' \<mapsto> ''2'']
   \<and> config_operationHeaders overridingConfig = Some [''B'' \<mapsto> ''3'', ''C'' \<mapsto> ''4'']
   \<and> dom (exec_headers (onSubschemaConfig stub overridingConfig fixtureNames ''A'' ''https://a/graphql'')
            request) = {''A'', ''B'', ''C''}
   \<and> exec_headers (onSubschemaConfig stub overridingConfig fixtureNames ''A'' ''https://a/graphql'')
        request ''A'' = Some ''1''
   \<and> exec_headers (onSubschemaConfig stub overridingConfig fixtureNames ''A'' ''https://a/graphql'')
        request ''B'' = Some ''3''
   \<and> exec_headers (onSubschemaConfig stub overridingConfig fixtureNames ''A'' ''https://a/graphql'')
        request ''C'' = Some ''4''"
proof -
  have sub: "operationHeaders
               (subgraphConfiguration fixtureNames (optional (config_subgraphs overridingConfig)) ''A'')
             = Some [''A'' \<mapsto> ''1'', ''B'' \<mapsto> ''2'']"
    by (simp add: configuration_A)
  have handler: "config_operationHeaders overridingConfig = Some [''B'' \<mapsto> ''3'', ''C'' \<mapsto> ''4'']"
    by (simp add: overridingConfig_def)
  have factory: "getInterpolatedHeadersFactory stub (Some h) d = h" for h d
    by (simp add: stub_def)
  from headers_merged [OF sub handler refl refl refl, of stub "''https://a/graphql''" request]
    sub handler
  show ?thesis
    unfolding factory by auto
qed

subsection \<open>The URL of a request\<close>

lemma indexOf_first:
  "(\<forall>j<length before. \<not> prefix pat (drop j (before @ pat @ after))) \<Longrightarrow>
     indexOf (before @ pat @ after) pat = Some (length before)"
proof (induction before)
  case Nil
  show ?case
  proof (cases "pat @ after")
    case Nil
    then show ?thesis by simp
  next
    case (Cons c cs)
    have "prefix pat (pat @ after)" by simp
    with Cons have "prefix pat (c # cs)" by simp
    with Cons show ?thesis by simp
  qed
next
  case (Cons b bs)
  from Cons.prems have here: "\<not> prefix pat ((b # bs) @ pat @ after)"
    by (metis drop0 length_greater_0_conv list.distinct(1))
  have "\<forall>j<length bs. \<not> prefix pat (drop j (bs @ pat @ after))"
  proof (intro allI impI)
    fix j assume "j < length bs"
    then have "Suc j < length (b # bs)" by simp
    with Cons.prems have "\<not> prefix pat (drop (Suc j) ((b # bs) @ pat @ after))" by blast
    then show "\<not> prefix pat (drop j (bs @ pat @ after))" by simp
  qed
  then have "indexOf (bs @ pat @ after) pat = Some (length bs)" by (rule Cons.IH)
  with here show ?case by simp
qed

lemma String_replace_first:
  assumes "\<forall>j<length before. \<not> prefix pat (drop j (before @ pat @ after))"
  shows "String_replace (before @ pat @ after) pat replaceValue
           = before @ getSubstitution pat before after replaceValue @ after"
  by (simp add: String_replace_def indexOf_first [OF assms])

text \<open>A replacement text without a dollar sign stands for itself.\<close>

lemma getSubstitution_literal:
  "CHR ''$'' \<notin> set replaceValue \<Longrightarrow>
     getSubstitution matched preceding following replaceValue = replaceValue"
  by (induction matched preceding following replaceValue rule: getSubstitution.induct) auto

lemma fetch_literal:
  assumes "url = before @ nonInterpolated @ after"
    and "\<forall>j<length before. \<not> prefix nonInterpolated (drop j url)"
    and "CHR ''$'' \<notin> set (getInterpolatedStringFactory io nonInterpolated
                              (endpointData io requestContext requestInfo))"
  shows "fetch io nonInterpolated url requestContext requestInfo
           = before
             @ getInterpolatedStringFactory io nonInterpolated
                 (endpointData io requestContext requestInfo)
             @ after"
  using assms by (simp add: fetch_def String_replace_first getSubstitution_literal)

text \<open>The example of the spec: the suffix \<^verbatim>\<open>?op=X\<close> is kept.\<close>

lemma fetch_spec_example:
  "fetch prodStub ''https://svc/graphql'' ''https://svc/graphql?op=X'' None None
     = ''https://svc-prod/graphql?op=X''"
  by (simp add: fetch_def String_replace_def prodStub_def stub_def)

text \<open>
  Claim C5 at an input where the code departs from it. The endpoint
  \<^verbatim>\<open>https://svc/graphql?key=pa$$word\<close> has no placeholder and interpolates to itself, and
  the request URL is that endpoint, so the claim leaves the URL as it is.
  \<^verbatim>\<open>String.prototype.replace\<close> reads \<^verbatim>\<open>$$\<close> in its second argument as one dollar sign, and
  the URL that reaches \<^verbatim>\<open>fetchFn\<close> is \<^verbatim>\<open>https://svc/graphql?key=pa$word\<close>.
\<close>

theorem fetch_expands_dollar_patterns:
  "getInterpolatedStringFactory stub ''https://svc/graphql?key=pa$$word''
       (endpointData stub None None)
     = ''https://svc/graphql?key=pa$$word''
   \<and> exec_fetch
         (onSubschemaConfig stub (stubConfig ''./supergraph.graphql'') Map.empty ''A''
            ''https://svc/graphql?key=pa$$word'')
         ''https://svc/graphql?key=pa$$word'' None None
     = ''https://svc/graphql?key=pa$word''"
  by (simp add: onSubschemaConfig_def subgraphConfiguration_def nonInterpolatedEndpoint_def
        stubConfig_def Let_def fetch_def String_replace_def stub_def endpointData_def)

text \<open>
  Claim C9. Only the first occurrence of the static endpoint in the URL is replaced: when
  the URL is \<open>before @ nonInterpolated @ after\<close> and the endpoint occurs at no earlier
  index, the resolved URL is \<open>before\<close>, the expansion of the interpolated endpoint, and
  \<open>after\<close> as it was, with every later occurrence in it.
\<close>

theorem fetch_replaces_first_occurrence_only:
  assumes "url = before @ nonInterpolated @ after"
    and "\<forall>j<length before. \<not> prefix nonInterpolated (drop j url)"
  shows "fetch io nonInterpolated url requestContext requestInfo
           = before
             @ getSubstitution nonInterpolated before after
                 (getInterpolatedStringFactory io nonInterpolated
                    (endpointData io requestContext requestInfo))
             @ after"
  using assms by (simp add: fetch_def String_replace_first)

theorem fetch_replaces_first_occurrence_only_witness:
  "''/api/graphql?next=/graphql'' = ''/api'' @ ''/graphql'' @ ''?next=/graphql''
   \<and> fetch prodStub ''/graphql'' ''/api/graphql?next=/graphql'' None None
       = ''/api/v2/graphql?next=/graphql''
   \<and> ''https://svc/graphql?next=https://svc/graphql''
       = [] @ ''https://svc/graphql'' @ ''?next=https://svc/graphql''
   \<and> fetch prodStub ''https://svc/graphql'' ''https://svc/graphql?next=https://svc/graphql''
         None None
       = ''https://svc-prod/graphql?next=https://svc/graphql''"
proof -
  have split: "''/api/graphql?next=/graphql'' = ''/api'' @ ''/graphql'' @ ''?next=/graphql''"
    by simp
  have first: "\<forall>j<length ''/api''. \<not> prefix ''/graphql'' (drop j ''/api/graphql?next=/graphql'')"
    by (simp add: less_Suc_eq drop_Cons')
  have split2: "''https://svc/graphql?next=https://svc/graphql''
                  = [] @ ''https://svc/graphql'' @ ''?next=https://svc/graphql''"
    by simp
  have first2: "\<forall>j<length ([]::string).
                  \<not> prefix ''https://svc/graphql''
                      (drop j ''https://svc/graphql?next=https://svc/graphql'')"
    by simp
  from fetch_replaces_first_occurrence_only [OF split first, of prodStub None None]
    fetch_replaces_first_occurrence_only [OF split2 first2, of prodStub None None]
  show ?thesis
    by (simp add: prodStub_def stub_def)
qed

section \<open>Loading the supergraph\<close>

subsection \<open>Payloads that are not documents\<close>

lemma sublist_middle: "sublist xs (ps @ xs @ ss)"
  by (auto simp: sublist_def)

lemma sublist_invalidResult: "sublist l (invalidResult l @ rest)"
  unfolding invalidResult_def sublist_def by (metis append.assoc)

text \<open>
  What holds of claim C6. A string that the parser rejects makes
  \<^verbatim>\<open>handleSupergraphResponse\<close> throw an error whose message contains the interpolated
  locator, the string and the parser's message. A payload that is not a string, whose
  \<^verbatim>\<open>kind\<close> is not \<^verbatim>\<open>'Document'\<close> and on which \<^verbatim>\<open>JSON.stringify\<close> returns makes it throw an
  error whose message contains the locator and the rendering of the payload.
\<close>

lemma handleSupergraphResponse_descriptive:
  "((\<forall>sdl. payload \<noteq> JString sdl) \<and> kind payload \<noteq> JString ''Document''
      \<and> \<not> JSON_stringify_throws payload \<longrightarrow>
      (\<exists>m. handleSupergraphResponse io payload l = Inl (Error m)
         \<and> sublist l m \<and> sublist (JSON_stringify io payload) m))
   \<and> (parse io sdl = Inl e_message \<longrightarrow>
      (\<exists>m. handleSupergraphResponse io (JString sdl) l = Inl (Error m)
         \<and> sublist l m \<and> sublist sdl m \<and> sublist e_message m))"
proof (intro conjI impI)
  assume bad: "(\<forall>sdl. payload \<noteq> JString sdl) \<and> kind payload \<noteq> JString ''Document''
                 \<and> \<not> JSON_stringify_throws payload"
  let ?m = "invalidResult l @ JSON_stringify io payload"
  from bad have "handleSupergraphResponse io payload l = Inl (Error ?m)"
    by (cases payload) (simp_all add: handleSupergraphResponse_def)
  moreover have "sublist l ?m" by (rule sublist_invalidResult)
  moreover have "sublist (JSON_stringify io payload) ?m"
    using sublist_middle [of "JSON_stringify io payload" "invalidResult l" "[]"] by simp
  ultimately show "\<exists>m. handleSupergraphResponse io payload l = Inl (Error m)
         \<and> sublist l m \<and> sublist (JSON_stringify io payload) m"
    by blast
next
  assume fails: "parse io sdl = Inl e_message"
  let ?m = "invalidResult l @ sdl @ [CHR 0x0A] @ '' Got error: '' @ e_message"
  from fails have "handleSupergraphResponse io (JString sdl) l = Inl (Error ?m)"
    by (simp add: handleSupergraphResponse_def)
  moreover have "sublist l ?m" by (rule sublist_invalidResult)
  moreover have "sublist sdl ?m" by (rule sublist_middle)
  moreover have "sublist e_message ?m"
    using sublist_middle [of e_message "invalidResult l @ sdl @ [CHR 0x0A] @ '' Got error: ''" "[]"]
    by simp
  ultimately show "\<exists>m. handleSupergraphResponse io (JString sdl) l = Inl (Error m)
         \<and> sublist l m \<and> sublist sdl m \<and> sublist e_message m"
    by blast
qed

text \<open>
  A payload on which \<^verbatim>\<open>JSON.stringify\<close> throws never reaches \<^verbatim>\<open>new Error\<close>: what is thrown
  is the \<^verbatim>\<open>TypeError\<close> of \<^verbatim>\<open>JSON.stringify\<close>, whose message does not depend on the locator.
\<close>

lemma handleSupergraphResponse_stringify_throws:
  assumes "\<forall>sdl. payload \<noteq> JString sdl"
    and "kind payload \<noteq> JString ''Document''"
    and "JSON_stringify_throws payload"
  shows "handleSupergraphResponse io payload l
           = Inl (TypeError (JSON_stringify_TypeError io payload))"
  using assms by (cases payload) (simp_all add: handleSupergraphResponse_def)

text \<open>
  Claim C6 at an input where the code departs from it. The payload is the object that
  contains itself under \<^verbatim>\<open>self\<close>: it is not a string and has no \<^verbatim>\<open>kind\<close>, so the claim has
  the load fail with an error whose message names \<^verbatim>\<open>./supergraph.yaml\<close>.
  \<^verbatim>\<open>JSON.stringify\<close> throws on it, and the load fails with that \<^verbatim>\<open>TypeError\<close>, whose message
  is about a circular structure and names no locator.
\<close>

theorem handleSupergraphResponse_circular_payload:
  "kind selfContaining = JUndefined
   \<and> JSON_stringify_throws selfContaining
   \<and> handleSupergraphResponse stub selfContaining ''./supergraph.yaml''
       = Inl (TypeError circularMessage)
   \<and> \<not> sublist ''./supergraph.yaml'' circularMessage"
proof -
  have "\<not> sublist ''./supergraph.yaml'' circularMessage"
    unfolding circularMessage_def by code_simp
  then show ?thesis
    by (simp add: handleSupergraphResponse_def selfContaining_def stub_def)
qed

text \<open>
  Claim C10. On \<^verbatim>\<open>null\<close> and on \<^verbatim>\<open>undefined\<close> the read \<^verbatim>\<open>?.kind\<close> yields \<^verbatim>\<open>undefined\<close>
  instead of throwing, and \<^verbatim>\<open>handleSupergraphResponse\<close> throws the descriptive error, whose
  message names the locator.
\<close>

theorem handleSupergraphResponse_nullish:
  "handleSupergraphResponse io JNull l = Inl (Error (invalidResult l @ JSON_stringify io JNull))
   \<and> handleSupergraphResponse io JUndefined l
       = Inl (Error (invalidResult l @ JSON_stringify io JUndefined))
   \<and> sublist l (invalidResult l @ JSON_stringify io JNull)
   \<and> sublist l (invalidResult l @ JSON_stringify io JUndefined)"
  by (simp add: handleSupergraphResponse_def sublist_invalidResult)

theorem handleSupergraphResponse_nullish_witness:
  "handleSupergraphResponse stub JNull ''./supergraph.json''
     = Inl (Error (''Supergraph source must be a valid GraphQL SDL string or a parsed DocumentNode, but got an invalid result from ./supergraph.json instead.''
                   @ [CHR 0x0A] @ '' Got result: null''))
   \<and> handleSupergraphResponse stub JUndefined ''./supergraph.json''
     = Inl (Error (''Supergraph source must be a valid GraphQL SDL string or a parsed DocumentNode, but got an invalid result from ./supergraph.json instead.''
                   @ [CHR 0x0A] @ '' Got result: undefined''))"
  using handleSupergraphResponse_nullish [of stub "''./supergraph.json''"]
  by (simp add: invalidResult_def stub_def)

subsection \<open>The store and the log\<close>

lemma readFileCalls_record_event:
  "readFileCalls (record_event ev s) = readFileCalls s + (if isReadFile ev then 1 else 0)"
  by (simp add: readFileCalls_def record_event_def)

lemma readFileCalls_store_update: "readFileCalls (s\<lparr>store := st\<rparr>) = readFileCalls s"
  by (simp add: readFileCalls_def)

lemma store_record_event: "store (record_event ev s) = store s"
  by (simp add: record_event_def)

lemma getWithSet_hit:
  "store s key = Some cached \<Longrightarrow>
     getWithSet key setterFn s = (Inr cached, record_event (StoreGet key) s)"
  by (simp add: getWithSet_def Let_def store_record_event)

lemma getWithSet_Inr:
  assumes "getWithSet key setterFn s = (Inr v, s')"
  shows "store s' key = Some v"
  using assms
  by (auto simp: getWithSet_def Let_def store_record_event record_event_def
           split: option.splits prod.splits sum.splits)

subsection \<open>File sources\<close>

lemma getSupergraphSdl_file:
  assumes "\<not> isUrl io (interpolatedSource io config)"
  shows "getSupergraphSdl io config baseDir s =
           getWithSet supergraphSdl_key (readSupergraphFile io config baseDir) s"
  using assms by (simp add: getSupergraphSdl_def)

lemma readSupergraphFile_reads:
  "readSupergraphFile io config baseDir s = (r, s') \<Longrightarrow>
     readFileCalls s' = readFileCalls s + 1 \<and> store s' = store s"
  by (auto simp: readSupergraphFile_def Let_def readFileCalls_record_event store_record_event
      split: sum.splits)

lemma getSupergraphSdl_hit:
  assumes "\<not> isUrl io (interpolatedSource io config)"
    and "store s supergraphSdl_key = Some cached"
  shows "getSupergraphSdl io config baseDir s
           = (Inr cached, record_event (StoreGet supergraphSdl_key) s)"
  using assms by (simp add: getSupergraphSdl_file getWithSet_hit)

lemma getSupergraphSdl_populates:
  assumes "\<not> isUrl io (interpolatedSource io config)"
    and "getSupergraphSdl io config baseDir s = (Inr v, s')"
  shows "store s' supergraphSdl_key = Some v"
  using assms by (simp add: getSupergraphSdl_file getWithSet_Inr)

lemma getSupergraphSdl_file_reads:
  assumes "\<not> isUrl io (interpolatedSource io config)"
    and "getSupergraphSdl io config baseDir s = (r, s')"
  shows "readFileCalls s' \<le> readFileCalls s + 1"
proof (cases "store s supergraphSdl_key")
  case None
  obtain r0 s0 where setter:
    "readSupergraphFile io config baseDir (record_event (StoreGet supergraphSdl_key) s) = (r0, s0)"
    by (cases "readSupergraphFile io config baseDir (record_event (StoreGet supergraphSdl_key) s)")
  from readSupergraphFile_reads [OF setter]
  have "readFileCalls s0 = readFileCalls s + 1"
    by (simp add: readFileCalls_record_event)
  with assms None setter show ?thesis
    by (cases r0)
       (auto simp: getSupergraphSdl_file getWithSet_def Let_def store_record_event
          readFileCalls_record_event readFileCalls_store_update)
next
  case (Some cached)
  with assms show ?thesis
    by (auto simp: getSupergraphSdl_hit readFileCalls_record_event)
qed

lemma loadTimes_cached:
  assumes "\<not> isUrl io (interpolatedSource io config)"
  shows "store s supergraphSdl_key = Some cached \<Longrightarrow>
         loadTimes io config baseDir n s = (rs, s') \<Longrightarrow>
         rs = replicate n (Inr cached) \<and> readFileCalls s' = readFileCalls s
           \<and> store s' supergraphSdl_key = Some cached"
proof (induction n arbitrary: s rs s')
  case 0
  then show ?case by simp
next
  case (Suc n)
  let ?s1 = "record_event (StoreGet supergraphSdl_key) s"
  have first: "getSupergraphSdl io config baseDir s = (Inr cached, ?s1)"
    using assms Suc.prems(1) by (rule getSupergraphSdl_hit)
  obtain rs1 s2 where rest: "loadTimes io config baseDir n ?s1 = (rs1, s2)"
    by (cases "loadTimes io config baseDir n ?s1")
  have kept: "store ?s1 supergraphSdl_key = Some cached"
    using Suc.prems(1) by (simp add: store_record_event)
  from Suc.IH [OF kept rest]
  have ih: "rs1 = replicate n (Inr cached)" "readFileCalls s2 = readFileCalls ?s1"
    "store s2 supergraphSdl_key = Some cached"
    by simp_all
  from Suc.prems(2) first rest have "rs = Inr cached # rs1" "s' = s2" by simp_all
  with ih show ?case by (simp add: readFileCalls_record_event)
qed

lemma stub_file: "\<not> isUrl stub (interpolatedSource stub (stubConfig ''./supergraph.graphql''))"
  by (simp add: stub_def stubConfig_def interpolatedSource_def)

lemma stub_first_load:
  "getSupergraphSdl stub (stubConfig ''./supergraph.graphql'') ''/app'' fresh
     = (Inr stubDocument, loadedOnce)"
  by (simp add: getSupergraphSdl_def getWithSet_def readSupergraphFile_def interpolatedSource_def
        stub_def stubConfig_def handleSupergraphResponse_def
        fresh_def loadedOnce_def record_event_def envOnly_def Let_def)

lemma stub_second_load:
  "loadTimes stub (stubConfig ''./supergraph.graphql'') ''/app'' 1 loadedOnce
     = ([Inr stubDocument], loadedTwice)"
  by (simp add: getSupergraphSdl_def getWithSet_def readSupergraphFile_def interpolatedSource_def
        stub_def stubConfig_def handleSupergraphResponse_def
        loadedTwice_def loadedOnce_def record_event_def envOnly_def Let_def)

text \<open>
  Claim C7, with the store as the spec describes it. For a source that is not a URL, a
  load that returns a document leaves it in the store under the fixed key, having read the
  file at most once; each of any number of further loads on that instance returns the same
  document and reads nothing.
\<close>

theorem file_source_cached:
  assumes "\<not> isUrl io (interpolatedSource io config)"
    and "getSupergraphSdl io config baseDir s0 = (Inr document, s1)"
    and "loadTimes io config baseDir n s1 = (rs, s2)"
  shows "rs = replicate n (Inr document)
         \<and> store s1 supergraphSdl_key = Some document
         \<and> readFileCalls s2 = readFileCalls s1
         \<and> readFileCalls s2 \<le> readFileCalls s0 + 1"
proof -
  have populated: "store s1 supergraphSdl_key = Some document"
    using assms(1,2) by (rule getSupergraphSdl_populates)
  have once: "readFileCalls s1 \<le> readFileCalls s0 + 1"
    using assms(1,2) by (rule getSupergraphSdl_file_reads)
  from loadTimes_cached [OF assms(1) populated assms(3)] populated once
  show ?thesis by simp
qed

theorem file_source_cached_witness:
  "\<not> isUrl stub (interpolatedSource stub (stubConfig ''./supergraph.graphql''))
   \<and> getSupergraphSdl stub (stubConfig ''./supergraph.graphql'') ''/app'' fresh
       = (Inr stubDocument, loadedOnce)
   \<and> loadTimes stub (stubConfig ''./supergraph.graphql'') ''/app'' 1 loadedOnce
       = ([Inr stubDocument], loadedTwice)
   \<and> readFileCalls loadedTwice \<le> readFileCalls fresh + 1
   \<and> store loadedOnce supergraphSdl_key = Some stubDocument"
  using file_source_cached [OF stub_file stub_first_load stub_second_load]
    stub_file stub_first_load stub_second_load
  by simp

subsection \<open>URL sources\<close>

lemma getSupergraphSdl_url:
  assumes "isUrl io (interpolatedSource io config)"
  shows "getSupergraphSdl io config baseDir s =
           ((case readUrl io (interpolatedSource io config) (readOptions io config baseDir) of
               Inl e_message \<Rightarrow> Inl (failedToLoad (interpolatedSource io config) e_message)
             | Inr res \<Rightarrow> handleSupergraphResponse io res (interpolatedSource io config)),
            record_event (ReadUrl (interpolatedSource io config)) s)"
  using assms
  by (simp add: getSupergraphSdl_def Let_def split: sum.splits)

lemma loadTimes_url:
  assumes "isUrl io (interpolatedSource io config)"
  shows "loadTimes io config baseDir n s = (rs, s') \<Longrightarrow>
         events s' = events s @ replicate n (ReadUrl (interpolatedSource io config))
           \<and> store s' = store s \<and> length rs = n"
proof (induction n arbitrary: s rs s')
  case 0
  then show ?case by simp
next
  case (Suc n)
  let ?s1 = "record_event (ReadUrl (interpolatedSource io config)) s"
  obtain rs1 s2 where rest: "loadTimes io config baseDir n ?s1 = (rs1, s2)"
    by (cases "loadTimes io config baseDir n ?s1")
  from Suc.IH [OF rest]
  have ih: "events s2 = events ?s1 @ replicate n (ReadUrl (interpolatedSource io config))"
    "store s2 = store ?s1" "length rs1 = n"
    by simp_all
  from Suc.prems rest have "s' = s2" "length rs = Suc (length rs1)"
    by (auto simp: getSupergraphSdl_url [OF assms])
  with ih show ?case
    by (simp add: record_event_def replicate_app_Cons_same)
qed

lemma stub_url: "isUrl stub (interpolatedSource stub (stubConfig ''https://cdn/supergraph.graphql''))"
  by (simp add: stub_def stubConfig_def interpolatedSource_def)

lemma stub_fetch_once:
  "getSupergraphSdl stub (stubConfig ''https://cdn/supergraph.graphql'') ''/app'' fresh
     = (Inr stubDocument, fetchedOnce)"
  by (simp add: getSupergraphSdl_def interpolatedSource_def
        stub_def stubConfig_def handleSupergraphResponse_def
        fresh_def fetchedOnce_def record_event_def envOnly_def Let_def)

lemma stub_fetch_twice:
  "loadTimes stub (stubConfig ''https://cdn/supergraph.graphql'') ''/app'' 2 fresh
     = ([Inr stubDocument, Inr stubDocument], fetchedTwice)"
  by (simp add: numeral_2_eq_2 getSupergraphSdl_def interpolatedSource_def
        stub_def stubConfig_def handleSupergraphResponse_def
        fresh_def fetchedTwice_def record_event_def envOnly_def Let_def)

text \<open>
  Claim C8. For a source that is a URL, a load adds exactly one call of \<^verbatim>\<open>readUrl\<close> to the
  log and no access to the store, leaves the store as it was, and returns what it would
  return with any other store; \<open>n\<close> loads in sequence call \<^verbatim>\<open>readUrl\<close> \<open>n\<close> times.
\<close>

theorem url_source_not_cached:
  assumes "isUrl io (interpolatedSource io config)"
  shows "(getSupergraphSdl io config baseDir s = (r, s1) \<longrightarrow>
            events s1 = events s @ [ReadUrl (interpolatedSource io config)]
            \<and> store s1 = store s
            \<and> r = fst (getSupergraphSdl io config baseDir (s\<lparr>store := anyStore\<rparr>)))
       \<and> (loadTimes io config baseDir n s = (rs, s2) \<longrightarrow>
            events s2 = events s @ replicate n (ReadUrl (interpolatedSource io config))
            \<and> store s2 = store s
            \<and> readUrlCalls s2 = readUrlCalls s + n)"
proof (intro conjI impI)
  assume load: "getSupergraphSdl io config baseDir s = (r, s1)"
  then show "events s1 = events s @ [ReadUrl (interpolatedSource io config)]"
    by (auto simp: getSupergraphSdl_url [OF assms] record_event_def)
  from load show "store s1 = store s"
    by (auto simp: getSupergraphSdl_url [OF assms] record_event_def)
  from load show "r = fst (getSupergraphSdl io config baseDir (s\<lparr>store := anyStore\<rparr>))"
    by (auto simp: getSupergraphSdl_url [OF assms])
next
  assume loads: "loadTimes io config baseDir n s = (rs, s2)"
  from loadTimes_url [OF assms loads]
  show "events s2 = events s @ replicate n (ReadUrl (interpolatedSource io config))"
    and "store s2 = store s"
    and "readUrlCalls s2 = readUrlCalls s + n"
    by (simp_all add: readUrlCalls_def)
qed

theorem url_source_not_cached_witness:
  "isUrl stub (interpolatedSource stub (stubConfig ''https://cdn/supergraph.graphql''))
   \<and> getSupergraphSdl stub (stubConfig ''https://cdn/supergraph.graphql'') ''/app'' fresh
       = (Inr stubDocument, fetchedOnce)
   \<and> events fetchedOnce = [ReadUrl ''https://cdn/supergraph.graphql'']
   \<and> store fetchedOnce = store fresh
   \<and> loadTimes stub (stubConfig ''https://cdn/supergraph.graphql'') ''/app'' 2 fresh
       = ([Inr stubDocument, Inr stubDocument], fetchedTwice)
   \<and> readUrlCalls fetchedTwice = readUrlCalls fresh + 2
   \<and> store fetchedTwice = store fresh"
  using url_source_not_cached
      [OF stub_url, of "''/app''" fresh "Inr stubDocument" fetchedOnce Map.empty 2
          "[Inr stubDocument, Inr stubDocument]" fetchedTwice]
    stub_url stub_fetch_once stub_fetch_twice
  by (simp add: fresh_def interpolatedSource_def stub_def stubConfig_def)

end
